theory Spec2Isabelle
  imports Complex_Main
begin

section \<open>Data model\<close>

text \<open>
  One row of the appliance table. The fields are the columns of the DataFrame that
  \<^verbatim>\<open>load_profile_app.py\<close> works on:
  \<^verbatim>\<open>Appliance\<close>, \<^verbatim>\<open>Quantity\<close>, \<^verbatim>\<open>Power (W)\<close>, \<^verbatim>\<open>Duty Cycle (%)\<close>,
  \<^verbatim>\<open>Power Factor\<close>, \<^verbatim>\<open>Use Time (%)\<close>, the twelve check-box columns of the
  2-hour periods, \<^verbatim>\<open>Priority\<close>, \<^verbatim>\<open>Room\<close>, \<^verbatim>\<open>Apparent Power (VA)\<close> and
  \<^verbatim>\<open>Total Daily Energy (Wh)\<close>. \<^verbatim>\<open>Quantity\<close> is an INTEGER column, the other
  numeric columns are REAL; they are modelled by \<open>int\<close> and by \<open>real\<close>, so the
  arithmetic below is exact (IEEE rounding and NaN cells are outside the model).
\<close>

record appliance =
  appliance_name :: string
  quantity :: int
  power_watts :: real
  duty_cycle_pct :: real
  power_factor :: real
  use_time_pct :: real
  schedule :: "bool list"
  priority :: string
  room :: string
  apparent_power_va :: real
  total_daily_energy_wh :: real

type_synonym dataframe = "appliance list"

text \<open>
  \<^verbatim>\<open>DatabaseManager._make_time_periods\<close> builds one label for each start hour of
  \<^verbatim>\<open>range(0, 24, 2)\<close>. A label is only ever used to read the check-box column it
  names, so it is represented by the position of that column in \<open>schedule\<close>.
\<close>

definition time_periods :: "nat list" where
  "time_periods = map (\<lambda>i. i div 2) (filter (\<lambda>i. i mod 2 = 0) [0..<24])"

text \<open>
  A DataFrame is rectangular: every row has a cell in each of the period columns. The
  rows of the model carry that shape as an invariant of the data.
\<close>

definition shape_ok :: "appliance \<Rightarrow> bool" where
  "shape_ok row \<longleftrightarrow> length (schedule row) = length time_periods"

definition frame_ok :: "dataframe \<Rightarrow> bool" where
  "frame_ok df \<longleftrightarrow> list_all shape_ok df"

section \<open>data\_validator.py\<close>

text \<open>\<^verbatim>\<open>Series.clip(lower, upper)\<close> and \<^verbatim>\<open>Series.clip(lower)\<close>, cell by cell.\<close>

definition clip :: "'a::linorder \<Rightarrow> 'a \<Rightarrow> 'a \<Rightarrow> 'a" where
  "clip lower upper x = min upper (max lower x)"

definition clip_lower :: "'a::linorder \<Rightarrow> 'a \<Rightarrow> 'a" where
  "clip_lower lower x = max lower x"

definition validate_df :: "dataframe \<Rightarrow> dataframe" where
  "validate_df df =
     (let df1 = map (\<lambda>r. r\<lparr>use_time_pct := clip 0 100 (use_time_pct r)\<rparr>) df;
          df2 = map (\<lambda>r. r\<lparr>power_watts := clip_lower 0 (power_watts r)\<rparr>) df1;
          df3 = map (\<lambda>r. r\<lparr>duty_cycle_pct := clip 0 100 (duty_cycle_pct r)\<rparr>) df2;
          df4 = map (\<lambda>r. r\<lparr>power_factor := clip (1 / 100) 1 (power_factor r)\<rparr>) df3;
          df5 = map (\<lambda>r. r\<lparr>quantity := clip_lower 0 (quantity r)\<rparr>) df4
      in df5)"

section \<open>energy\_calculator.py\<close>

definition compute_energy :: "appliance \<Rightarrow> real list" where
  "compute_energy row =
     (let duty = duty_cycle_pct row / 100;
          use_time = use_time_pct row / 100;
          power = power_watts row;
          qty = real_of_int (quantity row)
      in map (\<lambda>t. let is_on = schedule row ! t
                  in 2 * qty * power * duty * use_time * of_bool is_on) time_periods)"

definition compute_average_power :: "appliance \<Rightarrow> real list" where
  "compute_average_power row =
     (let qty = real_of_int (quantity row);
          power = power_watts row
      in map (\<lambda>t. let is_on = schedule row ! t
                  in qty * power * of_bool is_on) time_periods)"

definition compute_instantaneous_power :: "appliance \<Rightarrow> real list" where
  "compute_instantaneous_power row = compute_average_power row"

text \<open>
  The exceptions of the computations: \<^verbatim>\<open>ndarray.max()\<close> raises \<^verbatim>\<open>ValueError\<close> on an
  array with no element; a division of two numbers by zero is counted as
  \<^verbatim>\<open>ZeroDivisionError\<close>.
\<close>

datatype error = ValueError | ZeroDivisionError

definition float_div :: "real \<Rightarrow> real \<Rightarrow> error + real" where
  "float_div x y = (if y = 0 then Inl ZeroDivisionError else Inr (x / y))"

fun np_max :: "real list \<Rightarrow> error + real" where
  "np_max [] = Inl ValueError"
| "np_max (x # xs) = Inr (fold max xs x)"

text \<open>\<^verbatim>\<open>df[self.time_periods].astype(int).values\<close>: one row of 0/1 cells per appliance.\<close>

definition period_values :: "dataframe \<Rightarrow> int list list" where
  "period_values df = map (\<lambda>r. map (\<lambda>t. of_bool (schedule r ! t)) time_periods) df"

text \<open>
  \<^verbatim>\<open>m * w.values.reshape(-1, 1)\<close>: broadcasting multiplies every cell of row \<open>i\<close> by the
  \<open>i\<close>-th weight.
\<close>

definition times_column :: "int list list \<Rightarrow> real list \<Rightarrow> real list list" where
  "times_column m w = map (\<lambda>(row, c). map (\<lambda>x. real_of_int x * c) row) (zip m w)"

text \<open>
  \<^verbatim>\<open>.sum(axis=0)\<close> of an array of shape \<open>(n, ncols)\<close>: the column sums. The result has
  \<open>ncols\<close> entries also when \<open>n = 0\<close> (all of them 0 then).
\<close>

definition sum_axis0 :: "nat \<Rightarrow> real list list \<Rightarrow> real list" where
  "sum_axis0 ncols m = map (\<lambda>j. sum_list (map (\<lambda>row. row ! j) m)) [0..<ncols]"

definition calculate_peak_loads :: "dataframe \<Rightarrow> error + (real \<times> real)" where
  "calculate_peak_loads df =
     (case np_max (sum_axis0 (length time_periods)
                     (times_column (period_values df)
                        (map (\<lambda>r. real_of_int (quantity r) * power_watts r) df))) of
        Inl e \<Rightarrow> Inl e
      | Inr peak_load_real \<Rightarrow>
          (case np_max (sum_axis0 (length time_periods)
                          (times_column (period_values df)
                             (map (\<lambda>r. real_of_int (quantity r) * apparent_power_va r) df))) of
             Inl e \<Rightarrow> Inl e
           | Inr peak_load_apparent \<Rightarrow> Inr (peak_load_real, peak_load_apparent)))"

section \<open>load\_profile\_app.py\<close>

text \<open>
  \<^verbatim>\<open>Series.round(1)\<close> rounds to one decimal, halves to the even neighbour (numpy
  multiplies by 10, rounds to the nearest integer and divides by 10).
\<close>

definition round_half_even :: "real \<Rightarrow> int" where
  "round_half_even x =
     (let f = \<lfloor>x\<rfloor>; d = x - of_int f
      in if d < 1 / 2 then f else if 1 / 2 < d then f + 1
         else if even f then f else f + 1)"

definition round1 :: "real \<Rightarrow> real" where
  "round1 x = of_int (round_half_even (x * 10)) / 10"

text \<open>
  \<^verbatim>\<open>str.lower()\<close> on the letters A to Z. The tiers compare the lowered priority with
  the words \<^verbatim>\<open>essential\<close> and \<^verbatim>\<open>medium\<close>; no character outside A to Z is lowered by
  Python to a letter of these words, so the comparison is decided by this part of
  \<^verbatim>\<open>lower\<close> alone.
\<close>

definition lower_char :: "char \<Rightarrow> char" where
  "lower_char c =
     (if 65 \<le> (of_char c :: nat) \<and> (of_char c :: nat) \<le> 90
      then char_of ((of_char c :: nat) + 32) else c)"

definition lower :: "string \<Rightarrow> string" where
  "lower s = map lower_char s"

text \<open>
  The energy and power tables of \<^verbatim>\<open>_calculate_energy_and_power\<close>: for each row of
  \<open>df\<close> the \<^verbatim>\<open>Appliance\<close> cell and the twelve values.
\<close>

type_synonym table = "(string \<times> real list) list"

definition calculate_energy_and_power :: "dataframe \<Rightarrow> table \<times> table \<times> table" where
  "calculate_energy_and_power df =
     (let energy_df = map (\<lambda>r. (appliance_name r, compute_energy r)) df;
          average_power_df = map (\<lambda>r. (appliance_name r, compute_average_power r)) df;
          instantaneous_power_df =
            map (\<lambda>r. (appliance_name r, compute_instantaneous_power r)) df
      in (energy_df, average_power_df, instantaneous_power_df))"

text \<open>The five metrics of one summary section.\<close>

record tier_summary =
  total_energy_wh :: real
  peak_real_w :: real
  peak_apparent_va :: real
  load_allocation_pct :: real
  record_count :: nat

text \<open>The two filtered frames of the summaries.\<close>

definition essential_medium_df :: "dataframe \<Rightarrow> dataframe" where
  "essential_medium_df df =
     filter (\<lambda>r. lower (priority r) \<in> set [''essential'', ''medium'']) df"

definition essential_df :: "dataframe \<Rightarrow> dataframe" where
  "essential_df df = filter (\<lambda>r. lower (priority r) = ''essential'') df"

text \<open>
  \<^verbatim>\<open>_display_essential_medium_summary\<close>: the metrics it shows, \<open>None\<close> when the
  section is skipped.
\<close>

definition display_essential_medium_summary ::
  "dataframe \<Rightarrow> table \<Rightarrow> real \<Rightarrow> error + tier_summary option" where
  "display_essential_medium_summary df energy_df peak_load_apparent =
     (let em_df = essential_medium_df df in
      if em_df \<noteq> [] then
        (let essential_medium_energy_df =
               filter (\<lambda>row. fst row \<in> set (map appliance_name em_df)) energy_df;
             essential_medium_total_energy =
               sum_list (sum_axis0 (length time_periods) (map snd essential_medium_energy_df))
         in case np_max (sum_axis0 (length time_periods)
                           (times_column (period_values em_df)
                              (map (\<lambda>r. real_of_int (quantity r) * power_watts r
                                          * use_time_pct r / 100) em_df))) of
              Inl e \<Rightarrow> Inl e
            | Inr essential_medium_peak_load_real \<Rightarrow>
                (case np_max (sum_axis0 (length time_periods)
                                (times_column (period_values em_df)
                                   (map (\<lambda>r. real_of_int (quantity r) * apparent_power_va r
                                               * use_time_pct r / 100) em_df))) of
                   Inl e \<Rightarrow> Inl e
                 | Inr essential_medium_peak_load_apparent \<Rightarrow>
                     (case (if peak_load_apparent > 0
                            then (case float_div essential_medium_peak_load_apparent peak_load_apparent of
                                    Inl e \<Rightarrow> Inl e
                                  | Inr q \<Rightarrow> Inr (q * 100))
                            else Inr 0) of
                        Inl e \<Rightarrow> Inl e
                      | Inr essential_medium_load_allocation \<Rightarrow>
                        Inr (Some \<lparr>total_energy_wh = essential_medium_total_energy,
                                    peak_real_w = essential_medium_peak_load_real,
                                    peak_apparent_va = essential_medium_peak_load_apparent,
                                    load_allocation_pct = essential_medium_load_allocation,
                                    record_count = length em_df\<rparr>))))
      else Inr None)"

text \<open>\<^verbatim>\<open>_display_essential_only_summary\<close>, likewise.\<close>

definition display_essential_only_summary ::
  "dataframe \<Rightarrow> table \<Rightarrow> real \<Rightarrow> error + tier_summary option" where
  "display_essential_only_summary df energy_df peak_load_apparent =
     (let e_df = essential_df df in
      if e_df \<noteq> [] then
        (let essential_energy_df =
               filter (\<lambda>row. fst row \<in> set (map appliance_name e_df)) energy_df;
             essential_total_energy =
               sum_list (sum_axis0 (length time_periods) (map snd essential_energy_df))
         in case np_max (sum_axis0 (length time_periods)
                           (times_column (period_values e_df)
                              (map (\<lambda>r. real_of_int (quantity r) * power_watts r
                                          * use_time_pct r / 100) e_df))) of
              Inl e \<Rightarrow> Inl e
            | Inr essential_peak_load_real \<Rightarrow>
                (case np_max (sum_axis0 (length time_periods)
                                (times_column (period_values e_df)
                                   (map (\<lambda>r. real_of_int (quantity r) * apparent_power_va r
                                               * use_time_pct r / 100) e_df))) of
                   Inl e \<Rightarrow> Inl e
                 | Inr essential_peak_load_apparent \<Rightarrow>
                     (case (if peak_load_apparent > 0
                            then (case float_div essential_peak_load_apparent peak_load_apparent of
                                    Inl e \<Rightarrow> Inl e
                                  | Inr q \<Rightarrow> Inr (q * 100))
                            else Inr 0) of
                        Inl e \<Rightarrow> Inl e
                      | Inr essential_load_allocation \<Rightarrow>
                        Inr (Some \<lparr>total_energy_wh = essential_total_energy,
                                    peak_real_w = essential_peak_load_real,
                                    peak_apparent_va = essential_peak_load_apparent,
                                    load_allocation_pct = essential_load_allocation,
                                    record_count = length e_df\<rparr>))))
      else Inr None)"

text \<open>
  \<^verbatim>\<open>_display_summaries\<close>: the section of all appliances (its load percentage is the
  literal \<^verbatim>\<open>100.0%\<close>), then the two filtered sections.
\<close>

definition display_summaries ::
  "dataframe \<Rightarrow> table \<Rightarrow> real
     \<Rightarrow> error + (tier_summary \<times> tier_summary option \<times> tier_summary option)" where
  "display_summaries df energy_df total_energy =
     (case calculate_peak_loads df of
        Inl e \<Rightarrow> Inl e
      | Inr (peak_load_real, peak_load_apparent) \<Rightarrow>
          (let all_summary = \<lparr>total_energy_wh = total_energy,
                              peak_real_w = peak_load_real,
                              peak_apparent_va = peak_load_apparent,
                              load_allocation_pct = 100,
                              record_count = length df\<rparr>
           in case display_essential_medium_summary df energy_df peak_load_apparent of
                Inl e \<Rightarrow> Inl e
              | Inr essential_medium \<Rightarrow>
                  (case display_essential_only_summary df energy_df peak_load_apparent of
                     Inl e \<Rightarrow> Inl e
                   | Inr essential_only \<Rightarrow>
                       Inr (all_summary, essential_medium, essential_only))))"

text \<open>
  The computation of \<^verbatim>\<open>LoadProfileApp.run\<close> on the frame that the data editor
  returns: validation, the apparent power column, the energy table, the daily totals
  and the three summaries. (Saving and the charts do not feed the summaries.)

  The quotient \<open>power_watts / power_factor\<close> and every sum below are exact. The code
  computes them in IEEE doubles: where the exact quotient is a decimal tie
  (\<open>1.4 / 0.8 = 1.75\<close>) the double quotient lies beside it and is rounded to the other
  neighbour, and two sums of the same numbers taken in different orders can differ in
  the last bit.
\<close>

definition prepare :: "dataframe \<Rightarrow> dataframe" where
  "prepare edited_df =
     (let df1 = validate_df edited_df
      in map (\<lambda>r. r\<lparr>apparent_power_va := round1 (power_watts r / power_factor r)\<rparr>) df1)"

definition run ::
  "dataframe \<Rightarrow> error + (tier_summary \<times> tier_summary option \<times> tier_summary option)" where
  "run edited =
     (let edited_df = prepare edited;
          (energy_df, average_power_df, instantaneous_power_df) =
             calculate_energy_and_power edited_df;
          edited_df' = map (\<lambda>(r, row). r\<lparr>total_daily_energy_wh := sum_list (snd row)\<rparr>)
                         (zip edited_df energy_df);
          total_energy = sum_list (map total_daily_energy_wh edited_df')
      in display_summaries edited_df' energy_df total_energy)"

section \<open>The formulas of the specification\<close>

text \<open>
  The load of interval \<open>t\<close> in the words of the specification: the sum over the records
  of a per-record weight times \<open>is_on (schedule[t])\<close>; the peak is the maximum over the
  12 intervals.
\<close>

definition spec_interval_load :: "(appliance \<Rightarrow> real) \<Rightarrow> dataframe \<Rightarrow> nat \<Rightarrow> real" where
  "spec_interval_load w rs t = (\<Sum>r\<leftarrow>rs. w r * of_bool (schedule r ! t))"

definition spec_peak_load :: "(appliance \<Rightarrow> real) \<Rightarrow> dataframe \<Rightarrow> real" where
  "spec_peak_load w rs = Max (spec_interval_load w rs ` {..<12})"

text \<open>The ranges that the specification gives for a validated record.\<close>

definition in_range :: "appliance \<Rightarrow> bool" where
  "in_range r \<longleftrightarrow>
     0 \<le> quantity r \<and> 0 \<le> power_watts r
     \<and> 0 \<le> duty_cycle_pct r \<and> duty_cycle_pct r \<le> 100
     \<and> 0 \<le> use_time_pct r \<and> use_time_pct r \<le> 100
     \<and> 1 / 100 \<le> power_factor r \<and> power_factor r \<le> 1"

section \<open>Names for parts of the computation\<close>

text \<open>The daily total of a row: the sum of its twelve interval energies.\<close>

definition daily_energy :: "appliance \<Rightarrow> real" where
  "daily_energy r = sum_list (compute_energy r)"

text \<open>The energy table of a frame (the first table of \<open>calculate_energy_and_power\<close>).\<close>

definition energy_table :: "dataframe \<Rightarrow> table" where
  "energy_table df = map (\<lambda>r. (appliance_name r, compute_energy r)) df"

text \<open>The frame on which \<open>run\<close> computes the summaries.\<close>

definition with_daily_totals :: "dataframe \<Rightarrow> dataframe" where
  "with_daily_totals df = map (\<lambda>r. r\<lparr>total_daily_energy_wh := daily_energy r\<rparr>) df"

definition processed :: "dataframe \<Rightarrow> dataframe" where
  "processed edited = with_daily_totals (prepare edited)"

text \<open>A row whose \<^verbatim>\<open>Appliance\<close> cell occurs among the names of a tier.\<close>

definition named_in :: "dataframe \<Rightarrow> appliance \<Rightarrow> bool" where
  "named_in tier r \<longleftrightarrow> appliance_name r \<in> appliance_name ` set tier"

text \<open>The total that a summary takes from an energy table, and its five metrics.\<close>

definition tier_total_energy :: "dataframe \<Rightarrow> table \<Rightarrow> real" where
  "tier_total_energy tier energy_df =
     sum_list (sum_axis0 (length time_periods)
       (map snd (filter (\<lambda>row. fst row \<in> set (map appliance_name tier)) energy_df)))"

definition tier_metrics :: "dataframe \<Rightarrow> real \<Rightarrow> real \<Rightarrow> tier_summary" where
  "tier_metrics tier energy peak_all =
     \<lparr>total_energy_wh = energy,
      peak_real_w =
        spec_peak_load
          (\<lambda>r. real_of_int (quantity r) * power_watts r * use_time_pct r / 100) tier,
      peak_apparent_va =
        spec_peak_load
          (\<lambda>r. real_of_int (quantity r) * apparent_power_va r * use_time_pct r / 100) tier,
      load_allocation_pct =
        (if peak_all > 0
         then spec_peak_load
                (\<lambda>r. real_of_int (quantity r) * apparent_power_va r * use_time_pct r / 100) tier
              / peak_all * 100
         else 0),
      record_count = length tier\<rparr>"

section \<open>Example records\<close>

text \<open>The record of the concrete scenario of the specification.\<close>

definition scenario_record :: appliance where
  "scenario_record =
     \<lparr>appliance_name = ''Lamp'', quantity = 1, power_watts = 100, duty_cycle_pct = 100,
      power_factor = 1, use_time_pct = 50,
      schedule = [True, False, False, False, False, False,
                  False, False, False, False, False, False],
      priority = ''essential'', room = ''Hall'',
      apparent_power_va = 0, total_daily_energy_wh = 0\<rparr>"

text \<open>A non-essential record, and a non-essential record that shares the scenario's name.\<close>

definition geyser :: appliance where
  "geyser = scenario_record\<lparr>appliance_name := ''Geyser'', power_watts := 3000,
              priority := ''non-essential''\<rparr>"

definition lamp_heater :: appliance where
  "lamp_heater = scenario_record\<lparr>power_watts := 400, priority := ''non-essential''\<rparr>"

text \<open>A record whose power has two decimals: 100.04 W at power factor 1.\<close>

definition fine_meter :: appliance where
  "fine_meter = scenario_record\<lparr>power_watts := 2501 / 25\<rparr>"

text \<open>A record that draws nothing: quantity 0.\<close>

definition idle_lamp :: appliance where
  "idle_lamp = scenario_record\<lparr>quantity := 0\<rparr>"

section \<open>Basic facts\<close>

lemma time_periods_eq: "time_periods = [0, 1, 2, 3, 4, 5, 6, 7, 8, 9, 10, 11]"
  unfolding time_periods_def by (simp add: upt_rec)

lemma length_time_periods: "length time_periods = 12"
  by (simp add: time_periods_eq)

lemma time_periods_upt: "time_periods = [0..<12]"
  by (simp add: time_periods_eq upt_rec)

lemma shape_ok_scenario: "shape_ok scenario_record"
  by (simp add: shape_ok_def scenario_record_def length_time_periods)

lemma length_compute_energy: "length (compute_energy r) = length time_periods"
  by (simp add: compute_energy_def Let_def)

subsection \<open>The validator and the rounding\<close>

lemma validate_df_rows:
  "validate_df df =
     map (\<lambda>r. r\<lparr>use_time_pct := clip 0 100 (use_time_pct r),
                power_watts := clip_lower 0 (power_watts r),
                duty_cycle_pct := clip 0 100 (duty_cycle_pct r),
                power_factor := clip (1 / 100) 1 (power_factor r),
                quantity := clip_lower 0 (quantity r)\<rparr>) df"
  by (simp add: validate_df_def Let_def comp_def)

lemma in_range_validate: "r \<in> set (validate_df df) \<Longrightarrow> in_range r"
  by (auto simp: validate_df_rows in_range_def clip_def clip_lower_def)

lemma floor_le_round_half_even: "\<lfloor>x\<rfloor> \<le> round_half_even x"
  by (simp add: round_half_even_def Let_def)

lemma round_half_even_ge_int: "of_int n \<le> x \<Longrightarrow> n \<le> round_half_even x"
proof -
  assume "of_int n \<le> x"
  then have "n \<le> \<lfloor>x\<rfloor>" by (simp add: le_floor_iff)
  with floor_le_round_half_even [of x] show ?thesis by linarith
qed

lemma round1_nonneg: "0 \<le> x \<Longrightarrow> 0 \<le> round1 x"
  using round_half_even_ge_int [of 0 "x * 10"] by (simp add: round1_def)

lemma processed_rows:
  assumes "r \<in> set (processed edited)"
  shows "in_range r" and "apparent_power_va r = round1 (power_watts r / power_factor r)"
    and "0 \<le> apparent_power_va r"
proof -
  obtain r0 where r0: "r0 \<in> set (validate_df edited)"
    and r: "r = r0\<lparr>apparent_power_va := round1 (power_watts r0 / power_factor r0),
                      total_daily_energy_wh :=
                        daily_energy
                          (r0\<lparr>apparent_power_va := round1 (power_watts r0 / power_factor r0)\<rparr>)\<rparr>"
    using assms by (auto simp: processed_def prepare_def with_daily_totals_def Let_def)
  from in_range_validate [OF r0] show ir: "in_range r"
    by (simp add: r in_range_def)
  show ap: "apparent_power_va r = round1 (power_watts r / power_factor r)"
    by (simp add: r)
  from ir have "0 \<le> power_watts r / power_factor r"
    by (simp add: in_range_def)
  then show "0 \<le> apparent_power_va r"
    unfolding ap by (rule round1_nonneg)
qed

subsection \<open>Column sums and maxima\<close>

lemma np_max_Max: "xs \<noteq> [] \<Longrightarrow> np_max xs = Inr (Max (set xs))"
  by (cases xs) (simp_all add: Max.set_eq_fold [symmetric])

lemma times_column_period_values:
  "times_column (period_values df) (map w df)
     = map (\<lambda>r. map (\<lambda>t. of_bool (schedule r ! t) * w r) time_periods) df"
  by (induction df) (simp_all add: times_column_def period_values_def comp_def)

lemma sum_axis0_weighted:
  "sum_axis0 (length time_periods) (times_column (period_values df) (map w df))
     = map (spec_interval_load w df) [0..<12]"
proof -
  have "sum_list (map (\<lambda>row. row ! j)
          (map (\<lambda>r. map (\<lambda>t. of_bool (schedule r ! t) * w r) time_periods) df))
        = spec_interval_load w df j" if "j < 12" for j
    using that
    by (simp add: spec_interval_load_def comp_def time_periods_upt mult.commute)
  then show ?thesis
    by (simp add: sum_axis0_def times_column_period_values length_time_periods)
qed

lemma np_max_weighted:
  "np_max (sum_axis0 (length time_periods) (times_column (period_values df) (map w df)))
     = Inr (spec_peak_load w df)"
proof -
  have "set (map (spec_interval_load w df) [0..<12]) = spec_interval_load w df ` {..<12}"
    by (simp add: atLeast0LessThan)
  moreover have "map (spec_interval_load w df) [0..<12] \<noteq> []"
    by simp
  ultimately show ?thesis
    unfolding sum_axis0_weighted spec_peak_load_def
    using np_max_Max [of "map (spec_interval_load w df) [0..<12]"] by simp
qed

lemma calculate_peak_loads_eq:
  "calculate_peak_loads df =
     Inr (spec_peak_load (\<lambda>r. real_of_int (quantity r) * power_watts r) df,
          spec_peak_load (\<lambda>r. real_of_int (quantity r) * apparent_power_va r) df)"
  by (simp add: calculate_peak_loads_def np_max_weighted)

lemma sum_axis0_total:
  "\<forall>row \<in> set m. length row = n \<Longrightarrow> sum_list (sum_axis0 n m) = sum_list (map sum_list m)"
proof (induction m)
  case Nil
  then show ?case by (simp add: sum_axis0_def)
next
  case (Cons row m)
  have "sum_list (sum_axis0 n (row # m))
          = sum_list (map (\<lambda>j. row ! j) [0..<n]) + sum_list (sum_axis0 n m)"
    by (simp add: sum_axis0_def sum_list_addf)
  moreover have "map (\<lambda>j. row ! j) [0..<n] = row"
    using Cons.prems map_nth [of row] by auto
  ultimately show ?case using Cons by simp
qed

lemma tier_total_energy_table:
  "tier_total_energy tier (energy_table df)
     = (\<Sum>r\<leftarrow>filter (named_in tier) df. daily_energy r)"
proof -
  have "named_in tier = (\<lambda>r. appliance_name r \<in> appliance_name ` set tier)"
    by (simp add: named_in_def fun_eq_iff)
  then have "filter (\<lambda>row. fst row \<in> set (map appliance_name tier)) (energy_table df)
          = map (\<lambda>r. (appliance_name r, compute_energy r)) (filter (named_in tier) df)"
    by (simp add: energy_table_def filter_map comp_def named_in_def)
  then show ?thesis
    by (simp add: tier_total_energy_def sum_axis0_total length_compute_energy comp_def
          daily_energy_def)
qed

subsection \<open>Signs of the sums\<close>

lemma spec_interval_load_nonneg:
  "\<forall>r \<in> set rs. 0 \<le> w r \<Longrightarrow> 0 \<le> spec_interval_load w rs t"
  unfolding spec_interval_load_def by (rule sum_list_nonneg) auto

lemma spec_peak_load_nonneg:
  assumes "\<forall>r \<in> set rs. 0 \<le> w r"
  shows "0 \<le> spec_peak_load w rs"
proof -
  have "spec_interval_load w rs 0 \<le> Max (spec_interval_load w rs ` {..<12})"
    by (intro Max_ge) auto
  with spec_interval_load_nonneg [OF assms, of 0] show ?thesis
    unfolding spec_peak_load_def by linarith
qed

subsection \<open>The summaries in closed form\<close>

lemma display_essential_only_summary_eq:
  "display_essential_only_summary df energy_df pk =
     (if essential_df df = [] then Inr None
      else Inr (Some (tier_metrics (essential_df df)
                        (tier_total_energy (essential_df df) energy_df) pk)))"
  by (simp add: display_essential_only_summary_def Let_def np_max_weighted
        tier_total_energy_def tier_metrics_def float_div_def)

lemma display_essential_medium_summary_eq:
  "display_essential_medium_summary df energy_df pk =
     (if essential_medium_df df = [] then Inr None
      else Inr (Some (tier_metrics (essential_medium_df df)
                        (tier_total_energy (essential_medium_df df) energy_df) pk)))"
  by (simp add: display_essential_medium_summary_def Let_def np_max_weighted
        tier_total_energy_def tier_metrics_def float_div_def)

lemma energy_table_with_daily: "energy_table (with_daily_totals df) = energy_table df"
  by (simp add: energy_table_def with_daily_totals_def comp_def compute_energy_def
        daily_energy_def)

lemma run_unfold:
  "run edited =
     display_summaries (processed edited) (energy_table (processed edited))
       (\<Sum>r\<leftarrow>processed edited. daily_energy r)"
proof -
  have z: "map (\<lambda>(r, row). r\<lparr>total_daily_energy_wh := sum_list (snd row)\<rparr>)
             (zip df (map (\<lambda>r. (appliance_name r, compute_energy r)) df))
           = with_daily_totals df" for df
    by (induction df) (simp_all add: with_daily_totals_def daily_energy_def)
  have s: "sum_list (map total_daily_energy_wh (with_daily_totals df))
             = (\<Sum>r\<leftarrow>with_daily_totals df. daily_energy r)" for df
    by (simp add: with_daily_totals_def comp_def daily_energy_def compute_energy_def)
  show ?thesis
    unfolding run_def calculate_energy_and_power_def Let_def prod.case z s processed_def
      energy_table_with_daily
    by (simp add: energy_table_def)
qed

lemma run_eq:
  "run edited =
     Inr (\<lparr>total_energy_wh = (\<Sum>r\<leftarrow>processed edited. daily_energy r),
           peak_real_w =
             spec_peak_load (\<lambda>r. real_of_int (quantity r) * power_watts r) (processed edited),
           peak_apparent_va =
             spec_peak_load (\<lambda>r. real_of_int (quantity r) * apparent_power_va r)
               (processed edited),
           load_allocation_pct = 100, record_count = length (processed edited)\<rparr>,
          (if essential_medium_df (processed edited) = [] then None
           else Some (tier_metrics (essential_medium_df (processed edited))
                  (\<Sum>r\<leftarrow>filter (named_in (essential_medium_df (processed edited)))
                        (processed edited). daily_energy r)
                  (spec_peak_load (\<lambda>r. real_of_int (quantity r) * apparent_power_va r)
                     (processed edited)))),
          (if essential_df (processed edited) = [] then None
           else Some (tier_metrics (essential_df (processed edited))
                  (\<Sum>r\<leftarrow>filter (named_in (essential_df (processed edited)))
                        (processed edited). daily_energy r)
                  (spec_peak_load (\<lambda>r. real_of_int (quantity r) * apparent_power_va r)
                     (processed edited)))))"
  by (simp add: run_unfold display_summaries_def calculate_peak_loads_eq
        display_essential_medium_summary_eq display_essential_only_summary_eq
        tier_total_energy_table)

lemma priority_processed: "map priority (processed edited) = map priority edited"
  by (simp add: processed_def with_daily_totals_def prepare_def validate_df_rows Let_def
        comp_def)

lemma essential_df_empty_iff:
  "essential_df df = [] \<longleftrightarrow> (\<forall>p \<in> set (map priority df). lower p \<noteq> ''essential'')"
  by (auto simp: essential_df_def filter_empty_conv)

lemma essential_medium_df_empty_iff:
  "essential_medium_df df = []
     \<longleftrightarrow> (\<forall>p \<in> set (map priority df). lower p \<notin> set [''essential'', ''medium''])"
  by (auto simp: essential_medium_df_def filter_empty_conv)

lemma tiers_processed:
  "essential_df (processed edited) = [] \<longleftrightarrow> essential_df edited = []"
  "essential_medium_df (processed edited) = [] \<longleftrightarrow> essential_medium_df edited = []"
  unfolding essential_df_empty_iff essential_medium_df_empty_iff priority_processed
  by (rule refl)+

lemma tier_peak_nonneg:
  assumes "tier = filter Q (processed edited)"
  shows "0 \<le> spec_peak_load
           (\<lambda>r. real_of_int (quantity r) * apparent_power_va r * use_time_pct r / 100) tier"
proof (rule spec_peak_load_nonneg, rule ballI)
  fix r assume "r \<in> set tier"
  then have r: "r \<in> set (processed edited)" using assms by simp
  from processed_rows [OF r]
  show "0 \<le> real_of_int (quantity r) * apparent_power_va r * use_time_pct r / 100"
    by (simp add: in_range_def)
qed

section \<open>Per-interval energy and average power\<close>

text \<open>
  C1. For every appliance row (validated rows in particular) and every one of the 12
  intervals \<open>t\<close>, the energy computed for \<open>t\<close> is
  \<open>2 * quantity * power_watts * (duty_cycle_pct / 100) * (use_time_pct / 100)\<close> when the
  row is scheduled in \<open>t\<close> and exactly \<open>0\<close> when it is not. For the scenario record
  (quantity 1, 100 W, duty cycle 100, use time 50, scheduled in interval 0 only) the
  energies are 100 Wh in interval 0 and 0 elsewhere.
\<close>

theorem compute_energy_interval:
  "(shape_ok r \<and> t < 12 \<longrightarrow>
      compute_energy r ! t =
        (if schedule r ! t
         then 2 * real_of_int (quantity r) * power_watts r
                * (duty_cycle_pct r / 100) * (use_time_pct r / 100)
         else 0))
   \<and> compute_energy scenario_record = [100, 0, 0, 0, 0, 0, 0, 0, 0, 0, 0, 0]"
proof
  show "shape_ok r \<and> t < 12 \<longrightarrow>
      compute_energy r ! t =
        (if schedule r ! t
         then 2 * real_of_int (quantity r) * power_watts r
                * (duty_cycle_pct r / 100) * (use_time_pct r / 100)
         else 0)"
    by (simp add: compute_energy_def Let_def time_periods_upt)
next
  show "compute_energy scenario_record = [100, 0, 0, 0, 0, 0, 0, 0, 0, 0, 0, 0]"
    by (simp add: compute_energy_def scenario_record_def time_periods_eq)
qed

theorem compute_energy_interval_witness:
  "shape_ok scenario_record \<and> (0::nat) < 12 \<and> compute_energy scenario_record ! 0 = 100
   \<and> compute_energy scenario_record ! 1 = 0"
  using compute_energy_interval [of scenario_record 0]
        compute_energy_interval [of scenario_record 1] shape_ok_scenario
  by (simp add: scenario_record_def)

text \<open>
  C2. For every appliance row and every interval \<open>t\<close>, the average power computed for
  \<open>t\<close> is \<open>quantity * power_watts\<close> when the row is scheduled in \<open>t\<close> and \<open>0\<close> when it
  is not: neither \<open>duty_cycle_pct\<close> nor \<open>use_time_pct\<close> enters it. For the scenario
  record (use time 50) the average power of interval 0 is 100 W.
\<close>

theorem compute_average_power_interval:
  "(shape_ok r \<and> t < 12 \<longrightarrow>
      compute_average_power r ! t =
        (if schedule r ! t then real_of_int (quantity r) * power_watts r else 0))
   \<and> (\<forall>d u. compute_average_power (r\<lparr>duty_cycle_pct := d, use_time_pct := u\<rparr>)
             = compute_average_power r)
   \<and> compute_average_power scenario_record ! 0 = 100"
  by (simp add: compute_average_power_def Let_def time_periods_upt scenario_record_def)

theorem compute_average_power_interval_witness:
  "shape_ok scenario_record \<and> (0::nat) < 12
   \<and> compute_average_power scenario_record ! 0 = 100
   \<and> compute_average_power (scenario_record\<lparr>duty_cycle_pct := 7, use_time_pct := 3\<rparr>)
       = compute_average_power scenario_record"
  using compute_average_power_interval [of scenario_record 0] shape_ok_scenario
  by (simp add: scenario_record_def)

section \<open>Peak loads\<close>

text \<open>
  C3. For every batch (validated batches in particular), the peak real load of all
  appliances is the maximum over the 12 intervals of the sum, over every record of the
  frame whatever its priority, of \<open>quantity * power_watts * is_on (schedule[t])\<close>; the
  peak apparent load is the same with \<open>apparent_power_va\<close> for \<open>power_watts\<close>. Neither
  depends on the use time, the duty cycle or the priority of any record.
\<close>

theorem calculate_peak_loads_all:
  "(frame_ok df \<longrightarrow>
      calculate_peak_loads df =
        Inr (spec_peak_load (\<lambda>r. real_of_int (quantity r) * power_watts r) df,
             spec_peak_load (\<lambda>r. real_of_int (quantity r) * apparent_power_va r) df))
   \<and> (\<forall>u d p. calculate_peak_loads
                 (map (\<lambda>r. r\<lparr>use_time_pct := u r, duty_cycle_pct := d r, priority := p r\<rparr>) df)
               = calculate_peak_loads df)"
  by (simp add: calculate_peak_loads_eq spec_peak_load_def spec_interval_load_def comp_def)

theorem calculate_peak_loads_all_witness:
  "frame_ok (prepare [scenario_record, geyser])
   \<and> calculate_peak_loads (prepare [scenario_record, geyser]) = Inr (3100, 3100)
   \<and> spec_peak_load (\<lambda>r. real_of_int (quantity r) * power_watts r)
        (prepare [scenario_record, geyser]) = 3100"
proof -
  have f: "frame_ok (prepare [scenario_record, geyser])"
    by code_simp
  have v: "calculate_peak_loads (prepare [scenario_record, geyser]) = Inr (3100, 3100)"
    by code_simp
  from calculate_peak_loads_all [of "prepare [scenario_record, geyser]"] f v
  show ?thesis by simp
qed

text \<open>
  C4. For every batch and both filtered tiers (the priority is compared after
  lowering it), whenever the tier is not empty its summary is produced, and its peak
  real and peak apparent loads are the maximum over the intervals of the sum, over the
  records of the tier, of \<open>quantity * power * (use_time_pct / 100) * is_on (schedule[t])\<close>,
  with the real and the apparent power respectively: unlike the peak of all appliances,
  the tier peaks carry the factor \<open>use_time_pct / 100\<close>. For the scenario record (100 W,
  use time 50, scheduled in interval 0) the peak of all appliances is 100 W and the
  essential peak is 50 W, also when its priority is spelt \<^verbatim>\<open>Essential\<close>.
\<close>

theorem tier_peak_loads:
  "(frame_ok df \<and> essential_df df \<noteq> [] \<longrightarrow>
      (\<exists>s. display_essential_only_summary df energy_df pk = Inr (Some s)
         \<and> peak_real_w s =
             spec_peak_load (\<lambda>r. real_of_int (quantity r) * power_watts r
                                   * (use_time_pct r / 100)) (essential_df df)
         \<and> peak_apparent_va s =
             spec_peak_load (\<lambda>r. real_of_int (quantity r) * apparent_power_va r
                                   * (use_time_pct r / 100)) (essential_df df)))
   \<and> (frame_ok df \<and> essential_medium_df df \<noteq> [] \<longrightarrow>
      (\<exists>s. display_essential_medium_summary df energy_df pk = Inr (Some s)
         \<and> peak_real_w s =
             spec_peak_load (\<lambda>r. real_of_int (quantity r) * power_watts r
                                   * (use_time_pct r / 100)) (essential_medium_df df)
         \<and> peak_apparent_va s =
             spec_peak_load (\<lambda>r. real_of_int (quantity r) * apparent_power_va r
                                   * (use_time_pct r / 100)) (essential_medium_df df)))
   \<and> (\<exists>a em s. run [scenario_record] = Inr (a, em, Some s)
         \<and> peak_real_w a = 100 \<and> peak_real_w s = 50)
   \<and> (\<exists>a em s. run [scenario_record\<lparr>priority := ''Essential''\<rparr>] = Inr (a, em, Some s)
         \<and> peak_real_w a = 100 \<and> peak_real_w s = 50)"
proof (intro conjI)
  show "frame_ok df \<and> essential_df df \<noteq> [] \<longrightarrow>
      (\<exists>s. display_essential_only_summary df energy_df pk = Inr (Some s)
         \<and> peak_real_w s =
             spec_peak_load (\<lambda>r. real_of_int (quantity r) * power_watts r
                                   * (use_time_pct r / 100)) (essential_df df)
         \<and> peak_apparent_va s =
             spec_peak_load (\<lambda>r. real_of_int (quantity r) * apparent_power_va r
                                   * (use_time_pct r / 100)) (essential_df df))"
    by (simp add: display_essential_only_summary_eq tier_metrics_def)
  show "frame_ok df \<and> essential_medium_df df \<noteq> [] \<longrightarrow>
      (\<exists>s. display_essential_medium_summary df energy_df pk = Inr (Some s)
         \<and> peak_real_w s =
             spec_peak_load (\<lambda>r. real_of_int (quantity r) * power_watts r
                                   * (use_time_pct r / 100)) (essential_medium_df df)
         \<and> peak_apparent_va s =
             spec_peak_load (\<lambda>r. real_of_int (quantity r) * apparent_power_va r
                                   * (use_time_pct r / 100)) (essential_medium_df df))"
    by (simp add: display_essential_medium_summary_eq tier_metrics_def)
  have "run [scenario_record] =
          Inr (\<lparr>total_energy_wh = 100, peak_real_w = 100, peak_apparent_va = 100,
                 load_allocation_pct = 100, record_count = 1\<rparr>,
               Some \<lparr>total_energy_wh = 100, peak_real_w = 50, peak_apparent_va = 50,
                      load_allocation_pct = 50, record_count = 1\<rparr>,
               Some \<lparr>total_energy_wh = 100, peak_real_w = 50, peak_apparent_va = 50,
                      load_allocation_pct = 50, record_count = 1\<rparr>)"
    by code_simp
  then show "\<exists>a em s. run [scenario_record] = Inr (a, em, Some s)
         \<and> peak_real_w a = 100 \<and> peak_real_w s = 50"
    by simp
  have "run [scenario_record\<lparr>priority := ''Essential''\<rparr>] =
          Inr (\<lparr>total_energy_wh = 100, peak_real_w = 100, peak_apparent_va = 100,
                 load_allocation_pct = 100, record_count = 1\<rparr>,
               Some \<lparr>total_energy_wh = 100, peak_real_w = 50, peak_apparent_va = 50,
                      load_allocation_pct = 50, record_count = 1\<rparr>,
               Some \<lparr>total_energy_wh = 100, peak_real_w = 50, peak_apparent_va = 50,
                      load_allocation_pct = 50, record_count = 1\<rparr>)"
    by code_simp
  then show "\<exists>a em s. run [scenario_record\<lparr>priority := ''Essential''\<rparr>] = Inr (a, em, Some s)
         \<and> peak_real_w a = 100 \<and> peak_real_w s = 50"
    by simp
qed

theorem tier_peak_loads_witness:
  "frame_ok (prepare [scenario_record, geyser])
   \<and> essential_df (prepare [scenario_record, geyser]) \<noteq> []
   \<and> essential_medium_df (prepare [scenario_record, geyser]) \<noteq> []
   \<and> (\<exists>s. display_essential_only_summary (prepare [scenario_record, geyser]) [] 3100
             = Inr (Some s)
          \<and> peak_real_w s = 50 \<and> peak_apparent_va s = 50)
   \<and> spec_peak_load (\<lambda>r. real_of_int (quantity r) * power_watts r * (use_time_pct r / 100))
        (essential_df (prepare [scenario_record, geyser])) = 50"
proof -
  have f: "frame_ok (prepare [scenario_record, geyser])"
    by code_simp
  have n: "essential_df (prepare [scenario_record, geyser]) \<noteq> []"
          "essential_medium_df (prepare [scenario_record, geyser]) \<noteq> []"
    by code_simp+
  have v: "display_essential_only_summary (prepare [scenario_record, geyser]) [] 3100
             = Inr (Some \<lparr>total_energy_wh = 0, peak_real_w = 50, peak_apparent_va = 50,
                      load_allocation_pct = 50 / 31, record_count = 1\<rparr>)"
    by code_simp
  from tier_peak_loads [of "prepare [scenario_record, geyser]" "[]" 3100] f n v
  show ?thesis by auto
qed

section \<open>The summaries of \<open>run\<close>\<close>

lemma run_shape:
  obtains a em e where "run edited = Inr (a, em, e)"
    and "peak_apparent_va a =
           spec_peak_load (\<lambda>r. real_of_int (quantity r) * apparent_power_va r)
             (processed edited)"
    and "load_allocation_pct a = 100"
    and "em = (if essential_medium_df (processed edited) = [] then None
               else Some (tier_metrics (essential_medium_df (processed edited))
                      (\<Sum>r\<leftarrow>filter (named_in (essential_medium_df (processed edited)))
                            (processed edited). daily_energy r)
                      (peak_apparent_va a)))"
    and "e = (if essential_df (processed edited) = [] then None
              else Some (tier_metrics (essential_df (processed edited))
                     (\<Sum>r\<leftarrow>filter (named_in (essential_df (processed edited)))
                           (processed edited). daily_energy r)
                     (peak_apparent_va a)))"
proof -
  let ?a = "\<lparr>total_energy_wh = (\<Sum>r\<leftarrow>processed edited. daily_energy r),
           peak_real_w =
             spec_peak_load (\<lambda>r. real_of_int (quantity r) * power_watts r) (processed edited),
           peak_apparent_va =
             spec_peak_load (\<lambda>r. real_of_int (quantity r) * apparent_power_va r)
               (processed edited),
           load_allocation_pct = 100, record_count = length (processed edited)\<rparr>"
  show ?thesis
    by (rule that [of ?a, OF run_eq]) simp_all
qed

text \<open>
  C5, as stated: for each tier the load allocation is 0 when the peak apparent load of
  all appliances is 0. It fails for the tier of all appliances: its load percentage is
  the literal \<^verbatim>\<open>100.0%\<close>, also for a batch whose only record has quantity 0 and whose
  peak apparent load is therefore 0.
\<close>

theorem load_allocation_all_tier_counterexample:
  "\<exists>a em e. run [idle_lamp] = Inr (a, em, e)
      \<and> peak_apparent_va a = 0 \<and> load_allocation_pct a = 100 \<and> load_allocation_pct a \<noteq> 0"
proof -
  have "run [idle_lamp] =
          Inr (\<lparr>total_energy_wh = 0, peak_real_w = 0, peak_apparent_va = 0,
                 load_allocation_pct = 100, record_count = 1\<rparr>,
               Some \<lparr>total_energy_wh = 0, peak_real_w = 0, peak_apparent_va = 0,
                      load_allocation_pct = 0, record_count = 1\<rparr>,
               Some \<lparr>total_energy_wh = 0, peak_real_w = 0, peak_apparent_va = 0,
                      load_allocation_pct = 0, record_count = 1\<rparr>)"
    by code_simp
  then show ?thesis by simp
qed

text \<open>
  C5, amended. For every batch that \<open>run\<close> validates, the three summaries are computed
  without an error (no division by zero, no maximum of an empty array). The load
  percentage of all appliances is always 100. Each of the two filtered tiers has a
  summary exactly when the batch holds a record of the tier, and the load allocation
  of that summary is \<open>tier peak apparent / peak apparent of all appliances * 100\<close> when
  the peak apparent load of all appliances is positive and \<open>0\<close> when it is \<open>0\<close>; it is
  never negative.
\<close>

theorem load_allocation_filtered_tiers:
  "frame_ok edited \<longrightarrow>
     (\<exists>a em e. run edited = Inr (a, em, e)
        \<and> load_allocation_pct a = 100
        \<and> (em = None \<longleftrightarrow> essential_medium_df edited = [])
        \<and> (e = None \<longleftrightarrow> essential_df edited = [])
        \<and> (\<forall>s. em = Some s \<or> e = Some s \<longrightarrow>
              load_allocation_pct s =
                (if 0 < peak_apparent_va a
                 then peak_apparent_va s / peak_apparent_va a * 100 else 0)
              \<and> 0 \<le> load_allocation_pct s
              \<and> (peak_apparent_va a = 0 \<longrightarrow> load_allocation_pct s = 0)))"
proof
  let ?df = "processed edited"
  obtain a em e where r: "run edited = Inr (a, em, e)"
    and la: "load_allocation_pct a = 100"
    and em: "em = (if essential_medium_df ?df = [] then None
               else Some (tier_metrics (essential_medium_df ?df)
                      (\<Sum>r\<leftarrow>filter (named_in (essential_medium_df ?df)) ?df. daily_energy r)
                      (peak_apparent_va a)))"
    and e: "e = (if essential_df ?df = [] then None
              else Some (tier_metrics (essential_df ?df)
                     (\<Sum>r\<leftarrow>filter (named_in (essential_df ?df)) ?df. daily_energy r)
                     (peak_apparent_va a)))"
    by (rule run_shape [of edited]) blast
  let ?G = "\<lambda>s. load_allocation_pct s =
                (if 0 < peak_apparent_va a
                 then peak_apparent_va s / peak_apparent_va a * 100 else 0)
              \<and> 0 \<le> load_allocation_pct s
              \<and> (peak_apparent_va a = 0 \<longrightarrow> load_allocation_pct s = 0)"
  have b: "?G (tier_metrics tier en (peak_apparent_va a))"
    if "tier = filter Q ?df" for tier Q en
    using tier_peak_nonneg [OF that] by (simp add: tier_metrics_def)
  have c: "?G s" if "em = Some s \<or> e = Some s" for s
  proof -
    from that obtain tier Q en
      where "s = tier_metrics tier en (peak_apparent_va a)" "tier = filter Q ?df"
      unfolding em e essential_df_def essential_medium_df_def
      by (auto split: if_splits)
    with b show ?thesis by blast
  qed
  have n1: "em = None \<longleftrightarrow> essential_medium_df edited = []"
    unfolding em using tiers_processed(2) [of edited] by simp
  have n2: "e = None \<longleftrightarrow> essential_df edited = []"
    unfolding e using tiers_processed(1) [of edited] by simp
  from r la n1 n2 c
  show "\<exists>a em e. run edited = Inr (a, em, e)
        \<and> load_allocation_pct a = 100
        \<and> (em = None \<longleftrightarrow> essential_medium_df edited = [])
        \<and> (e = None \<longleftrightarrow> essential_df edited = [])
        \<and> (\<forall>s. em = Some s \<or> e = Some s \<longrightarrow>
              load_allocation_pct s =
                (if 0 < peak_apparent_va a
                 then peak_apparent_va s / peak_apparent_va a * 100 else 0)
              \<and> 0 \<le> load_allocation_pct s
              \<and> (peak_apparent_va a = 0 \<longrightarrow> load_allocation_pct s = 0))"
    by blast
qed

theorem load_allocation_filtered_tiers_witness:
  "frame_ok [scenario_record, geyser]
   \<and> essential_df [scenario_record, geyser] \<noteq> []
   \<and> essential_medium_df [scenario_record, geyser] \<noteq> []
   \<and> (\<exists>a s2 s1. run [scenario_record, geyser] = Inr (a, Some s2, Some s1)
         \<and> load_allocation_pct a = 100
         \<and> peak_apparent_va a = 3100 \<and> peak_apparent_va s1 = 50 \<and> peak_apparent_va s2 = 50
         \<and> load_allocation_pct s1 = 50 / 3100 * 100
         \<and> load_allocation_pct s2 = 50 / 3100 * 100
         \<and> 0 \<le> load_allocation_pct s1)
   \<and> frame_ok [idle_lamp]
   \<and> (\<exists>a s2 s1. run [idle_lamp] = Inr (a, Some s2, Some s1)
         \<and> peak_apparent_va a = 0
         \<and> load_allocation_pct s1 = 0 \<and> load_allocation_pct s2 = 0)
   \<and> frame_ok [geyser]
   \<and> essential_df [geyser] = [] \<and> essential_medium_df [geyser] = []
   \<and> (\<exists>a. run [geyser] = Inr (a, None, None) \<and> load_allocation_pct a = 100)"
proof -
  have f: "frame_ok [scenario_record, geyser]" "frame_ok [idle_lamp]" "frame_ok [geyser]"
    by code_simp+
  have n: "essential_df [scenario_record, geyser] \<noteq> []"
          "essential_medium_df [scenario_record, geyser] \<noteq> []"
          "essential_df [geyser] = []" "essential_medium_df [geyser] = []"
    by code_simp+
  have v: "run [scenario_record, geyser] =
             Inr (\<lparr>total_energy_wh = 3100, peak_real_w = 3100, peak_apparent_va = 3100,
                    load_allocation_pct = 100, record_count = 2\<rparr>,
                  Some \<lparr>total_energy_wh = 100, peak_real_w = 50, peak_apparent_va = 50,
                         load_allocation_pct = 50 / 31, record_count = 1\<rparr>,
                  Some \<lparr>total_energy_wh = 100, peak_real_w = 50, peak_apparent_va = 50,
                         load_allocation_pct = 50 / 31, record_count = 1\<rparr>)"
    by code_simp
  have w: "run [idle_lamp] =
             Inr (\<lparr>total_energy_wh = 0, peak_real_w = 0, peak_apparent_va = 0,
                    load_allocation_pct = 100, record_count = 1\<rparr>,
                  Some \<lparr>total_energy_wh = 0, peak_real_w = 0, peak_apparent_va = 0,
                         load_allocation_pct = 0, record_count = 1\<rparr>,
                  Some \<lparr>total_energy_wh = 0, peak_real_w = 0, peak_apparent_va = 0,
                         load_allocation_pct = 0, record_count = 1\<rparr>)"
    by code_simp
  have g: "run [geyser] =
             Inr (\<lparr>total_energy_wh = 3000, peak_real_w = 3000, peak_apparent_va = 3000,
                    load_allocation_pct = 100, record_count = 1\<rparr>, None, None)"
    by code_simp
  from load_allocation_filtered_tiers [of "[scenario_record, geyser]"]
       load_allocation_filtered_tiers [of "[idle_lamp]"]
       load_allocation_filtered_tiers [of "[geyser]"] f n v w g
  show ?thesis by simp
qed

section \<open>Apparent power\<close>

text \<open>
  C6, as stated: every validated record has \<open>apparent_power_va \<ge> power_watts\<close>. It fails
  for a record of 100.04 W at power factor 1: the quotient 100.04 is rounded to one
  decimal, which gives 100.0 VA.
\<close>

theorem apparent_power_below_real_counterexample:
  "\<exists>r. r \<in> set (prepare [fine_meter])
       \<and> 1 / 100 \<le> power_factor r \<and> power_factor r \<le> 1
       \<and> power_watts r = 2501 / 25 \<and> apparent_power_va r = 100
       \<and> \<not> power_watts r \<le> apparent_power_va r"
proof -
  have "prepare [fine_meter] =
          [fine_meter\<lparr>apparent_power_va := 100\<rparr>]"
    by code_simp
  then show ?thesis
    by (simp add: fine_meter_def scenario_record_def)
qed

text \<open>
  C6, amended. For every record that \<open>run\<close> has validated, the power factor lies in
  \<open>[0.01, 1]\<close>, the power is not negative and the quotient \<open>power_watts / power_factor\<close>
  is at least \<open>power_watts\<close>. Whenever \<open>power_watts\<close> has at most one decimal, the apparent
  power is at least \<open>power_watts\<close>; this holds for the rounding of every value that is at
  least \<open>power_watts\<close>, so it does not depend on how the quotient itself was rounded.
\<close>

theorem apparent_power_one_decimal:
  "r \<in> set (prepare edited) \<longrightarrow>
     1 / 100 \<le> power_factor r \<and> power_factor r \<le> 1 \<and> 0 \<le> power_watts r
     \<and> power_watts r \<le> power_watts r / power_factor r
     \<and> (power_watts r * 10 \<in> \<int> \<longrightarrow> power_watts r \<le> apparent_power_va r)
     \<and> (\<forall>q. power_watts r * 10 \<in> \<int> \<and> power_watts r \<le> q \<longrightarrow> power_watts r \<le> round1 q)"
proof
  assume "r \<in> set (prepare edited)"
  then obtain r0 where r0: "r0 \<in> set (validate_df edited)"
    and r: "r = r0\<lparr>apparent_power_va := round1 (power_watts r0 / power_factor r0)\<rparr>"
    by (auto simp: prepare_def Let_def)
  from in_range_validate [OF r0] have ir: "in_range r"
    by (simp add: r in_range_def)
  have ap: "apparent_power_va r = round1 (power_watts r / power_factor r)"
    by (simp add: r)
  from ir have pf: "0 < power_factor r" "power_factor r \<le> 1" and p: "0 \<le> power_watts r"
    by (simp_all add: in_range_def)
  have q: "power_watts r \<le> power_watts r / power_factor r"
  proof -
    have "power_watts r * power_factor r \<le> power_watts r * 1"
      using pf p by (intro mult_left_mono) auto
    then show ?thesis using pf by (simp add: le_divide_eq)
  qed
  have rnd: "power_watts r \<le> round1 x" if "power_watts r * 10 \<in> \<int>" "power_watts r \<le> x" for x
  proof -
    from that(1) obtain n :: int where n: "power_watts r * 10 = of_int n"
      by (auto elim: Ints_cases)
    have "power_watts r * 10 \<le> x * 10"
      using that(2) by (intro mult_right_mono) simp_all
    then have "of_int n \<le> x * 10"
      unfolding n .
    then have "n \<le> round_half_even (x * 10)"
      by (rule round_half_even_ge_int)
    then have "real_of_int n \<le> of_int (round_half_even (x * 10))"
      by simp
    then show ?thesis
      unfolding round1_def using n by simp
  qed
  have exact: "power_watts r \<le> apparent_power_va r" if "power_watts r * 10 \<in> \<int>"
    unfolding ap using that q by (rule rnd)
  from ir q exact rnd
  show "1 / 100 \<le> power_factor r \<and> power_factor r \<le> 1 \<and> 0 \<le> power_watts r
     \<and> power_watts r \<le> power_watts r / power_factor r
     \<and> (power_watts r * 10 \<in> \<int> \<longrightarrow> power_watts r \<le> apparent_power_va r)
     \<and> (\<forall>q. power_watts r * 10 \<in> \<int> \<and> power_watts r \<le> q \<longrightarrow> power_watts r \<le> round1 q)"
    by (simp add: in_range_def)
qed

theorem apparent_power_one_decimal_witness:
  "scenario_record\<lparr>apparent_power_va := 100\<rparr> \<in> set (prepare [scenario_record])
   \<and> power_watts (scenario_record\<lparr>apparent_power_va := 100\<rparr>) * 10 \<in> \<int>
   \<and> power_watts (scenario_record\<lparr>apparent_power_va := 100\<rparr>)
       \<le> apparent_power_va (scenario_record\<lparr>apparent_power_va := 100\<rparr>)
   \<and> power_watts (scenario_record\<lparr>apparent_power_va := 100\<rparr>) \<le> 2001 / 20
   \<and> power_watts (scenario_record\<lparr>apparent_power_va := 100\<rparr>) \<le> round1 (2001 / 20)"
proof -
  have b: "prepare [scenario_record] = [scenario_record\<lparr>apparent_power_va := 100\<rparr>]"
    by code_simp
  have c: "power_watts (scenario_record\<lparr>apparent_power_va := 100\<rparr>) * 10 = of_int 1000"
    by (simp add: scenario_record_def)
  have d: "power_watts (scenario_record\<lparr>apparent_power_va := 100\<rparr>) * 10 \<in> \<int>"
    unfolding c by (rule Ints_of_int)
  have e: "power_watts (scenario_record\<lparr>apparent_power_va := 100\<rparr>) \<le> 2001 / 20"
    by (simp add: scenario_record_def)
  from apparent_power_one_decimal
         [of "scenario_record\<lparr>apparent_power_va := 100\<rparr>" "[scenario_record]"] b d e
  show ?thesis by simp
qed

section \<open>Empty tiers\<close>

text \<open>
  C7, as stated: a tier with no record still gets a summary, with every metric 0. It
  fails for a batch that holds one non-essential record: \<open>run\<close> returns no summary for
  the essential tier and none for the essential and medium tier.
\<close>

theorem empty_tier_summary_counterexample:
  "essential_medium_df (processed [geyser]) = []
   \<and> essential_df (processed [geyser]) = []
   \<and> (\<exists>a. run [geyser] = Inr (a, None, None))
   \<and> \<not> (\<exists>a em e s. run [geyser] = Inr (a, em, e) \<and> (em = Some s \<or> e = Some s)
            \<and> total_energy_wh s = 0 \<and> peak_real_w s = 0 \<and> peak_apparent_va s = 0
            \<and> load_allocation_pct s = 0 \<and> record_count s = 0)"
proof -
  have t: "essential_medium_df (processed [geyser]) = []" "essential_df (processed [geyser]) = []"
    by code_simp+
  have v: "run [geyser] =
             Inr (\<lparr>total_energy_wh = 3000, peak_real_w = 3000, peak_apparent_va = 3000,
                    load_allocation_pct = 100, record_count = 1\<rparr>, None, None)"
    by code_simp
  from t v show ?thesis by simp
qed

text \<open>
  C7, amended. For every batch whose filtered tier is empty, the summary function of the
  tier returns without an error and produces no summary; a summary that is produced
  counts at least one record.
\<close>

theorem empty_tier_no_summary:
  "(frame_ok df \<and> essential_df df = [] \<longrightarrow>
      display_essential_only_summary df energy_df pk = Inr None)
   \<and> (frame_ok df \<and> essential_medium_df df = [] \<longrightarrow>
      display_essential_medium_summary df energy_df pk = Inr None)
   \<and> (\<forall>s. display_essential_only_summary df energy_df pk = Inr (Some s)
          \<or> display_essential_medium_summary df energy_df pk = Inr (Some s)
        \<longrightarrow> 0 < record_count s)"
  by (auto simp: display_essential_only_summary_eq display_essential_medium_summary_eq
        tier_metrics_def split: if_splits)

theorem empty_tier_no_summary_witness:
  "frame_ok (prepare [geyser]) \<and> essential_df (prepare [geyser]) = []
   \<and> essential_medium_df (prepare [geyser]) = []
   \<and> display_essential_only_summary (prepare [geyser]) (energy_table (prepare [geyser])) 3000
       = Inr None
   \<and> display_essential_medium_summary (prepare [geyser]) (energy_table (prepare [geyser])) 3000
       = Inr None"
proof -
  have f: "frame_ok (prepare [geyser])"
    by code_simp
  have t: "essential_df (prepare [geyser]) = []" "essential_medium_df (prepare [geyser]) = []"
    by code_simp+
  from empty_tier_no_summary [of "prepare [geyser]" "energy_table (prepare [geyser])" 3000] f t
  show ?thesis by simp
qed

section \<open>Daily energy of the tiers\<close>

text \<open>
  C10. The total energy of a tier is the sum of the daily energies of all rows of the
  frame whose appliance name occurs among the names of the tier's rows, whatever the
  priority of the row. For the batch of an essential record and a non-essential record
  of the same name, with daily energies 100 Wh and 400 Wh, the essential tier holds one
  record and its total energy is 500 Wh.
\<close>

theorem tier_energy_by_name:
  "(frame_ok df \<and> essential_df df \<noteq> [] \<longrightarrow>
      (\<exists>s. display_essential_only_summary df (fst (calculate_energy_and_power df)) pk
               = Inr (Some s)
         \<and> total_energy_wh s =
             (\<Sum>r\<leftarrow>filter (\<lambda>r. appliance_name r \<in> appliance_name ` set (essential_df df)) df.
                sum_list (compute_energy r))))
   \<and> (frame_ok df \<and> essential_medium_df df \<noteq> [] \<longrightarrow>
      (\<exists>s. display_essential_medium_summary df (fst (calculate_energy_and_power df)) pk
               = Inr (Some s)
         \<and> total_energy_wh s =
             (\<Sum>r\<leftarrow>filter (\<lambda>r. appliance_name r \<in> appliance_name ` set (essential_medium_df df))
                   df.
                sum_list (compute_energy r))))
   \<and> (\<exists>a em s. run [scenario_record, lamp_heater] = Inr (a, em, Some s)
         \<and> map priority (essential_df (processed [scenario_record, lamp_heater]))
             = [''essential'']
         \<and> record_count s = 1
         \<and> sum_list (compute_energy scenario_record) = 100
         \<and> sum_list (compute_energy lamp_heater) = 400
         \<and> total_energy_wh s = 100 + 400)"
proof (intro conjI)
  have et: "fst (calculate_energy_and_power df) = energy_table df"
    by (simp add: calculate_energy_and_power_def energy_table_def Let_def)
  have nm: "(\<lambda>r. appliance_name r \<in> appliance_name ` set tier) = named_in tier" for tier
    by (simp add: named_in_def fun_eq_iff)
  show "frame_ok df \<and> essential_df df \<noteq> [] \<longrightarrow>
      (\<exists>s. display_essential_only_summary df (fst (calculate_energy_and_power df)) pk
               = Inr (Some s)
         \<and> total_energy_wh s =
             (\<Sum>r\<leftarrow>filter (\<lambda>r. appliance_name r \<in> appliance_name ` set (essential_df df)) df.
                sum_list (compute_energy r)))"
    unfolding et nm
    by (simp add: display_essential_only_summary_eq tier_metrics_def tier_total_energy_table
          daily_energy_def)
  show "frame_ok df \<and> essential_medium_df df \<noteq> [] \<longrightarrow>
      (\<exists>s. display_essential_medium_summary df (fst (calculate_energy_and_power df)) pk
               = Inr (Some s)
         \<and> total_energy_wh s =
             (\<Sum>r\<leftarrow>filter (\<lambda>r. appliance_name r \<in> appliance_name ` set (essential_medium_df df))
                   df.
                sum_list (compute_energy r)))"
    unfolding et nm
    by (simp add: display_essential_medium_summary_eq tier_metrics_def tier_total_energy_table
          daily_energy_def)
  have v: "run [scenario_record, lamp_heater] =
             Inr (\<lparr>total_energy_wh = 500, peak_real_w = 500, peak_apparent_va = 500,
                    load_allocation_pct = 100, record_count = 2\<rparr>,
                  Some \<lparr>total_energy_wh = 500, peak_real_w = 50, peak_apparent_va = 50,
                         load_allocation_pct = 10, record_count = 1\<rparr>,
                  Some \<lparr>total_energy_wh = 500, peak_real_w = 50, peak_apparent_va = 50,
                         load_allocation_pct = 10, record_count = 1\<rparr>)"
    by code_simp
  have p: "map priority (essential_df (processed [scenario_record, lamp_heater]))
             = [''essential'']"
    by code_simp
  have e: "sum_list (compute_energy scenario_record) = 100"
          "sum_list (compute_energy lamp_heater) = 400"
    by code_simp+
  from v p e
  show "\<exists>a em s. run [scenario_record, lamp_heater] = Inr (a, em, Some s)
         \<and> map priority (essential_df (processed [scenario_record, lamp_heater]))
             = [''essential'']
         \<and> record_count s = 1
         \<and> sum_list (compute_energy scenario_record) = 100
         \<and> sum_list (compute_energy lamp_heater) = 400
         \<and> total_energy_wh s = 100 + 400"
    by simp
qed

theorem tier_energy_by_name_witness:
  "frame_ok (prepare [scenario_record, lamp_heater])
   \<and> essential_df (prepare [scenario_record, lamp_heater]) \<noteq> []
   \<and> essential_medium_df (prepare [scenario_record, lamp_heater]) \<noteq> []
   \<and> (\<exists>s. display_essential_only_summary (prepare [scenario_record, lamp_heater])
             (fst (calculate_energy_and_power (prepare [scenario_record, lamp_heater]))) 500
           = Inr (Some s)
         \<and> total_energy_wh s = 500)"
proof -
  have f: "frame_ok (prepare [scenario_record, lamp_heater])"
    by code_simp
  have n: "essential_df (prepare [scenario_record, lamp_heater]) \<noteq> []"
          "essential_medium_df (prepare [scenario_record, lamp_heater]) \<noteq> []"
    by code_simp+
  have v: "display_essential_only_summary (prepare [scenario_record, lamp_heater])
             (fst (calculate_energy_and_power (prepare [scenario_record, lamp_heater]))) 500
           = Inr (Some \<lparr>total_energy_wh = 500, peak_real_w = 50, peak_apparent_va = 50,
                         load_allocation_pct = 10, record_count = 1\<rparr>)"
    by code_simp
  from tier_energy_by_name [of "prepare [scenario_record, lamp_heater]" 500] f n v
  show ?thesis by simp
qed

section \<open>Idempotence of the validator\<close>

text \<open>
  C9. Validating twice is validating once; the validator clamps \<open>use_time_pct\<close> and
  \<open>duty_cycle_pct\<close> to \<open>[0, 100]\<close>, \<open>power_watts\<close> and \<open>quantity\<close> to \<open>[0, \<infinity>)\<close> and
  \<open>power_factor\<close> to \<open>[0.01, 1]\<close>, and changes no other field.
\<close>

theorem validate_df_idempotent:
  "validate_df (validate_df x) = validate_df x
   \<and> validate_df x =
       map (\<lambda>r. r\<lparr>use_time_pct := min 100 (max 0 (use_time_pct r)),
                  power_watts := max 0 (power_watts r),
                  duty_cycle_pct := min 100 (max 0 (duty_cycle_pct r)),
                  power_factor := min 1 (max (1 / 100) (power_factor r)),
                  quantity := max 0 (quantity r)\<rparr>) x"
  by (simp add: validate_df_rows clip_def clip_lower_def comp_def)

end
